theory Spec2Isabelle
  imports Main "HOL-Library.Word"
begin

section \<open>The leveled console logger of package dbg\<close>

text \<open>
  The development embeds \<^verbatim>\<open>dbg.go\<close>: the colour constants, the enable flags, the four
  writer methods \<^verbatim>\<open>P\<close>, the six level functions and \<^verbatim>\<open>GetRequest\<close>. What the package
  takes from the Go standard library (\<^verbatim>\<open>fmt.Sprintf\<close>, \<^verbatim>\<open>log.Printf\<close>,
  \<^verbatim>\<open>strconv.FormatInt\<close>, \<^verbatim>\<open>time.Now\<close>, \<^verbatim>\<open>runtime/debug.Stack\<close>) is modelled in the
  first subsections, each with the part of its documented behaviour that is covered.
\<close>

subsection \<open>Console formatting constants\<close>

definition KNRM :: string where "KNRM = CHR 0x1B # ''[0m''"
definition KFNT :: string where "KFNT = CHR 0x1B # ''[2m''"
definition KRED :: string where "KRED = CHR 0x1B # ''[31m''"
definition KGRN :: string where "KGRN = CHR 0x1B # ''[32m''"
definition KYEL :: string where "KYEL = CHR 0x1B # ''[33m''"
definition KBLU :: string where "KBLU = CHR 0x1B # ''[34m''"
definition KMAG :: string where "KMAG = CHR 0x1B # ''[35m''"
definition KCYN :: string where "KCYN = CHR 0x1B # ''[36m''"
definition KWHT :: string where "KWHT = CHR 0x1B # ''[37m''"

text \<open>\<^verbatim>\<open>"\033[0m"\<close>: octal 033 is the same byte as \<^verbatim>\<open>\x1B\<close>.\<close>

definition KRESET :: string where "KRESET = CHR 0x1B # ''[0m''"

subsection \<open>Enable flags\<close>

text \<open>
  The package-level constants \<^verbatim>\<open>Debugging\<close>, \<^verbatim>\<open>Develop\<close>, \<^verbatim>\<open>v\<close>, \<^verbatim>\<open>i\<close> and
  \<^verbatim>\<open>l\<close>. They are edited in the source to switch a tier off, so the functions below take
  them as a record; \<open>build\<close> holds the values the source is checked in with.
\<close>

record config =
  Debugging :: bool
  Develop :: bool
  verbose_v :: bool
  info_i :: bool
  lg_l :: bool

definition build :: config where
  "build = \<lparr>Debugging = True, Develop = True, verbose_v = True, info_i = True, lg_l = True\<rparr>"

type_synonym Tag = string

subsection \<open>Operands and decimal text\<close>

text \<open>
  The variadic \<^verbatim>\<open>...interface{}\<close> operands. \<open>ArgInt\<close> and \<open>ArgString\<close> are operands of
  the Go types \<^verbatim>\<open>int\<close> and \<^verbatim>\<open>string\<close>, with their text under the plain verbs given
  below. \<open>ArgOther listed shown\<close> stands for any operand by what \<^verbatim>\<open>fmt\<close> makes of it:
  \<open>shown d\<close> is its text under the directive \<open>d\<close> (the characters of the directive after
  the \<^verbatim>\<open>%\<close>: flags, width, precision and verb, as in \<^verbatim>\<open>5d\<close> or \<^verbatim>\<open>-08.3f\<close>), and
  \<open>listed\<close> is its entry in a report of surplus operands (\<^verbatim>\<open>type=value\<close>, or
  \<^verbatim>\<open><nil>\<close>). It covers the operands of every other type (floats, booleans, nil, errors,
  values with a \<^verbatim>\<open>String\<close> method) and an int or a string under the directives that
  \<open>ArgInt\<close> and \<open>ArgString\<close> are not given for. Printing an operand is taken to have no
  effect besides the text it yields.
\<close>

datatype arg = ArgInt int | ArgString string | ArgOther string "string \<Rightarrow> string"

definition digit :: "nat \<Rightarrow> char" where
  "digit n = ''0123456789'' ! n"

fun decimal :: "nat \<Rightarrow> string" where
  "decimal n = (if n < 10 then [digit n] else decimal (n div 10) @ [digit (n mod 10)])"

declare decimal.simps [simp del]

definition format_int :: "int \<Rightarrow> string" where
  "format_int k = (if k < 0 then CHR ''-'' # decimal (nat (- k)) else decimal (nat k))"

text \<open>\<^verbatim>\<open>strconv.FormatInt(x, 10)\<close> on an \<^verbatim>\<open>int64\<close>.\<close>

definition FormatInt :: "64 word \<Rightarrow> string" where
  "FormatInt x = format_int (sint x)"

subsection \<open>fmt.Sprintf\<close>

text \<open>
  \<^verbatim>\<open>strconv.Quote\<close> as \<^verbatim>\<open>%q\<close> applies it to a string: the text between double quotes,
  a double quote or a backslash inside it escaped with a backslash. This is what Go does
  for printable ASCII; control and non-ASCII bytes have escapes of their own, and
  \<open>operand_ok\<close> below keeps such strings out of what is proved about \<^verbatim>\<open>%q\<close>.
\<close>

fun quoteChar :: "char \<Rightarrow> string" where
  "quoteChar c = (if c = CHR 0x22 \<or> c = CHR 0x5C then [CHR 0x5C, c] else [c])"

definition quote :: "string \<Rightarrow> string" where
  "quote s = CHR 0x22 # concat (map quoteChar s) @ [CHR 0x22]"

text \<open>
  One operand under one directive. \<^verbatim>\<open>%d\<close> and \<^verbatim>\<open>%v\<close> print an int in decimal,
  \<^verbatim>\<open>%s\<close> and \<^verbatim>\<open>%v\<close> print a string as it is, \<^verbatim>\<open>%q\<close> quotes a string; an int under
  \<^verbatim>\<open>%s\<close> or a string under \<^verbatim>\<open>%d\<close> gives the wrong-type marker
  \<^verbatim>\<open>%!verb(type=value)\<close>. For \<open>ArgInt\<close> and \<open>ArgString\<close> these directives are the ones
  modelled (\<open>operand_ok\<close> below); an \<open>ArgOther\<close> operand brings its own text for every
  directive.
\<close>

fun listed :: "arg \<Rightarrow> string" where
  "listed (ArgInt n) = ''int='' @ format_int n"
| "listed (ArgString s) = ''string='' @ s"
| "listed (ArgOther l shown) = l"

definition badVerb :: "char \<Rightarrow> string \<Rightarrow> string \<Rightarrow> string" where
  "badVerb verb ty val = ''%!'' @ [verb] @ ''('' @ ty @ ''='' @ val @ '')''"

fun printArg :: "arg \<Rightarrow> string \<Rightarrow> string" where
  "printArg (ArgInt n) d =
     (if d = ''d'' \<or> d = ''v'' then format_int n
      else badVerb (last d) ''int'' (format_int n))"
| "printArg (ArgString s) d =
     (if d = ''s'' \<or> d = ''v'' then s
      else if d = ''q'' then quote s
      else badVerb (last d) ''string'' s)"
| "printArg (ArgOther l shown) d = shown d"

definition missingArg :: "char \<Rightarrow> string" where
  "missingArg verb = ''%!'' @ [verb] @ ''(MISSING)''"

text \<open>Operands left over when the format is used up: \<^verbatim>\<open>%!(EXTRA type=value, ...)\<close>.\<close>

fun extraList :: "arg list \<Rightarrow> string" where
  "extraList [] = []"
| "extraList [a] = listed a"
| "extraList (a # b # bs) = listed a @ '', '' @ extraList (b # bs)"

definition extraArgs :: "arg list \<Rightarrow> string" where
  "extraArgs as = (if as = [] then [] else ''%!(EXTRA '' @ extraList as @ '')'')"

text \<open>
  The driver loop of \<^verbatim>\<open>fmt\<close> (\<^verbatim>\<open>doPrintf\<close>). Its first argument is \<open>None\<close> while
  it copies text, and \<open>Some d\<close> inside a directive, \<open>d\<close> being the characters read since
  the \<^verbatim>\<open>%\<close>. A directive is \<^verbatim>\<open>%\<close>, flags among \<^verbatim>\<open>#0+-\<close> and space, a width in
  digits, a precision (\<^verbatim>\<open>.\<close> and digits), and the verb, which is the first character
  that does not continue what was read (\<open>continues\<close>). The verb \<^verbatim>\<open>%\<close> gives a percent
  sign and takes no operand; a format that ends inside a directive gives
  \<^verbatim>\<open>%!(NOVERB)\<close>; a verb with no operand left gives \<^verbatim>\<open>%!verb(MISSING)\<close>; otherwise the
  directive prints the next operand (\<open>printArg\<close>); operands left at the end are reported
  by \<open>extraArgs\<close>. Not modelled: \<^verbatim>\<open>*\<close> as width or precision, explicit operand indexes
  (\<^verbatim>\<open>%[1]d\<close>), verbs outside ASCII, widths so long that \<^verbatim>\<open>fmt\<close> gives up on them;
  \<open>covered\<close> below tells the formats that stay clear of these.
\<close>

definition is_flag :: "char \<Rightarrow> bool" where
  "is_flag c = (c \<in> set ''#0+- '')"

definition is_digit :: "char \<Rightarrow> bool" where
  "is_digit c = (c \<in> set ''0123456789'')"

definition continues :: "string \<Rightarrow> char \<Rightarrow> bool" where
  "continues d c =
     (if CHR ''.'' \<in> set d then is_digit c
      else if list_all is_flag d then is_flag c \<or> is_digit c \<or> c = CHR ''.''
      else is_digit c \<or> c = CHR ''.'')"

fun doPrintf :: "string option \<Rightarrow> string \<Rightarrow> arg list \<Rightarrow> string" where
  "doPrintf None [] as = extraArgs as"
| "doPrintf None (c # cs) as =
     (if c = CHR ''%'' then doPrintf (Some []) cs as else c # doPrintf None cs as)"
| "doPrintf (Some d) [] as = ''%!(NOVERB)'' @ extraArgs as"
| "doPrintf (Some d) (c # cs) as =
     (if continues d c then doPrintf (Some (d @ [c])) cs as
      else if c = CHR ''%'' then CHR ''%'' # doPrintf None cs as
      else (case as of
              [] \<Rightarrow> missingArg c @ doPrintf None cs []
            | a # as' \<Rightarrow> printArg a (d @ [c]) @ doPrintf None cs as'))"

definition Sprintf :: "string \<Rightarrow> arg list \<Rightarrow> string" where
  "Sprintf format args = doPrintf None format args"

subsection \<open>The process: sink, clock and stack\<close>

text \<open>
  \<open>sink\<close> is the process-wide standard logger: the texts handed to it, oldest first
  (the logger frames each with its own header and line end). \<open>clock\<close> gives the
  successive readings of \<^verbatim>\<open>time.Now().UnixNano()\<close>, \<open>reads\<close> counts the readings taken
  so far, and \<open>stack\<close> is the text \<^verbatim>\<open>runtime/debug.Stack()\<close> returns (one text for
  the calls considered; no property below depends on how it varies between calls).
\<close>

record world =
  sink :: "string list"
  clock :: "nat \<Rightarrow> 64 word"
  reads :: nat
  stack :: string

definition time_Now_UnixNano :: "world \<Rightarrow> 64 word \<times> world" where
  "time_Now_UnixNano w = (clock w (reads w), w\<lparr>reads := Suc (reads w)\<rparr>)"

definition godbg_Stack :: "world \<Rightarrow> string" where
  "godbg_Stack w = stack w"

text \<open>\<^verbatim>\<open>log.Printf(format, v...)\<close> hands \<^verbatim>\<open>fmt.Sprintf(format, v...)\<close> to the logger.\<close>

definition log_Printf :: "string \<Rightarrow> arg list \<Rightarrow> world \<Rightarrow> world" where
  "log_Printf format args w = w\<lparr>sink := sink w @ [Sprintf format args]\<rparr>"

subsection \<open>The writer methods P\<close>

text \<open>
  The four methods \<^verbatim>\<open>func (d debug) P\<close>, \<^verbatim>\<open>func (l lg) P\<close>, \<^verbatim>\<open>func (i info) P\<close> and
  \<^verbatim>\<open>func (v verbose) P\<close>; the receiver, a named boolean, is the first argument.
\<close>

definition debug_P :: "bool \<Rightarrow> string \<Rightarrow> Tag \<Rightarrow> string \<Rightarrow> arg list \<Rightarrow> world \<Rightarrow> world" where
  "debug_P d preposition tag format args w =
     (if d then log_Printf (preposition @ ''/'' @ tag @ '' : '' @ format @ KRESET) args w
      else w)"

definition lg_P :: "bool \<Rightarrow> string \<Rightarrow> Tag \<Rightarrow> string \<Rightarrow> arg list \<Rightarrow> world \<Rightarrow> world" where
  "lg_P l preposition tag format args w =
     (if l then log_Printf (preposition @ ''/'' @ tag @ '' : '' @ format @ KRESET) args w
      else w)"

definition info_P :: "bool \<Rightarrow> string \<Rightarrow> Tag \<Rightarrow> string \<Rightarrow> arg list \<Rightarrow> world \<Rightarrow> world" where
  "info_P i preposition tag format args w =
     (if i then log_Printf (preposition @ ''/'' @ tag @ '' : '' @ format @ KRESET) args w
      else w)"

definition verbose_P :: "bool \<Rightarrow> string \<Rightarrow> Tag \<Rightarrow> string \<Rightarrow> arg list \<Rightarrow> world \<Rightarrow> world" where
  "verbose_P v preposition tag format args w =
     (if v then log_Printf (preposition @ ''/'' @ tag @ '' : '' @ format @ KRESET) args w
      else w)"

subsection \<open>The level functions\<close>

text \<open>
  \<^verbatim>\<open>D\<close> and \<^verbatim>\<open>V\<close> return nothing; \<^verbatim>\<open>I\<close>, \<^verbatim>\<open>W\<close>, \<^verbatim>\<open>E\<close> and \<^verbatim>\<open>WTF\<close> return
  \<^verbatim>\<open>timeKey\<close>. \<^verbatim>\<open>E\<close> overwrites its parameter \<^verbatim>\<open>format\<close> twice (\<open>format1\<close>,
  \<open>format2\<close>) and calls \<^verbatim>\<open>l.P\<close> without operands.
\<close>

definition D :: "config \<Rightarrow> Tag \<Rightarrow> string \<Rightarrow> arg list \<Rightarrow> world \<Rightarrow> world" where
  "D cfg tag format args w = debug_P (Debugging cfg) (KNRM @ ''DEBUG'') tag format args w"

definition V :: "config \<Rightarrow> Tag \<Rightarrow> string \<Rightarrow> arg list \<Rightarrow> world \<Rightarrow> world" where
  "V cfg tag format args w = verbose_P (verbose_v cfg) (KFNT @ ''VERBOSE'') tag format args w"

definition I :: "config \<Rightarrow> Tag \<Rightarrow> string \<Rightarrow> arg list \<Rightarrow> world \<Rightarrow> 64 word \<times> world" where
  "I cfg tag format args w =
     (let (timeKey, w1) = time_Now_UnixNano w;
          w2 = info_P (info_i cfg) (KGRN @ ''INFO'') tag
                 (FormatInt timeKey @ '' -- '' @ format) args w1
      in (timeKey, w2))"

definition W :: "config \<Rightarrow> Tag \<Rightarrow> string \<Rightarrow> arg list \<Rightarrow> world \<Rightarrow> 64 word \<times> world" where
  "W cfg tag format args w =
     (let (timeKey, w1) = time_Now_UnixNano w;
          w2 = lg_P (lg_l cfg) (KYEL @ ''WARN'') tag
                 (FormatInt timeKey @ '' -- '' @ format) args w1
      in (timeKey, w2))"

definition E :: "config \<Rightarrow> Tag \<Rightarrow> string \<Rightarrow> arg list \<Rightarrow> world \<Rightarrow> 64 word \<times> world" where
  "E cfg tag format args w =
     (let (timeKey, w1) = time_Now_UnixNano w;
          format1 = Sprintf format args;
          format2 = format1 @ Sprintf (CHR 0x0A # '' StackTrace : %v'') [ArgString (godbg_Stack w1)];
          w2 = lg_P (lg_l cfg) (KRED @ ''ERROR'') tag
                 (FormatInt timeKey @ '' -- '' @ format2) [] w1
      in (timeKey, w2))"

definition WTF :: "config \<Rightarrow> Tag \<Rightarrow> string \<Rightarrow> arg list \<Rightarrow> world \<Rightarrow> 64 word \<times> world" where
  "WTF cfg tag format args w =
     (let (timeKey, w1) = time_Now_UnixNano w;
          w2 = lg_P (lg_l cfg) (KMAG @ ''WTF'') tag
                 (FormatInt timeKey @ '' -- '' @ format) args w1
      in (timeKey, w2))"

subsection \<open>GetRequest\<close>

text \<open>
  \<^verbatim>\<open>*http.Request\<close> with the fields the function reads. Both \<^verbatim>\<open>r\<close> and \<^verbatim>\<open>r.URL\<close> are
  pointers: \<open>None\<close> is nil, and reading a field through nil panics.
\<close>

record url =
  Path :: string
  RawQuery :: string

record request =
  Method :: string
  URL :: "url option"

datatype iface = IfaceRequest "request option" | IfaceString string

datatype error = NilDereference

definition GetRequest :: "config \<Rightarrow> request option \<Rightarrow> error + iface" where
  "GetRequest cfg r =
     (if Develop cfg then Inr (IfaceRequest r)
      else (case r of
              None \<Rightarrow> Inl NilDereference
            | Some rq \<Rightarrow>
                (case URL rq of
                   None \<Rightarrow> Inl NilDereference
                 | Some u \<Rightarrow>
                     Inr (IfaceString
                           (Sprintf (''[%s] %q %v'' @ [CHR 0x0A])
                              [ArgString (Method rq), ArgString (Path u)])))))"

subsection \<open>Successive calls\<close>

text \<open>
  A caller's straight-line sequence of level calls in one process. \<open>run\<close> performs them
  in order, each in the state the one before left, and collects the ids that
  \<^verbatim>\<open>I\<close>, \<^verbatim>\<open>W\<close>, \<^verbatim>\<open>E\<close> and \<^verbatim>\<open>WTF\<close> return.
\<close>

datatype call =
    CallD Tag string "arg list"
  | CallV Tag string "arg list"
  | CallI Tag string "arg list"
  | CallW Tag string "arg list"
  | CallE Tag string "arg list"
  | CallWTF Tag string "arg list"

fun exec :: "config \<Rightarrow> call \<Rightarrow> world \<Rightarrow> 64 word list \<times> world" where
  "exec cfg (CallD tag format args) w = ([], D cfg tag format args w)"
| "exec cfg (CallV tag format args) w = ([], V cfg tag format args w)"
| "exec cfg (CallI tag format args) w = (let (k, w') = I cfg tag format args w in ([k], w'))"
| "exec cfg (CallW tag format args) w = (let (k, w') = W cfg tag format args w in ([k], w'))"
| "exec cfg (CallE tag format args) w = (let (k, w') = E cfg tag format args w in ([k], w'))"
| "exec cfg (CallWTF tag format args) w = (let (k, w') = WTF cfg tag format args w in ([k], w'))"

fun run :: "config \<Rightarrow> call list \<Rightarrow> world \<Rightarrow> 64 word list \<times> world" where
  "run cfg [] w = ([], w)"
| "run cfg (c # cs) w =
     (let (ks, w1) = exec cfg c w; (ks', w2) = run cfg cs w1 in (ks @ ks', w2))"

text \<open>A wall clock that is never set back: later readings are not smaller.\<close>

definition steady :: "world \<Rightarrow> bool" where
  "steady w = (\<forall>m n. m \<le> n \<longrightarrow> sint (clock w m) \<le> sint (clock w n))"

subsection \<open>Formats and operands within the modelled part of fmt\<close>



text \<open>
  \<open>covered\<close> holds of a format and operands on which \<open>doPrintf\<close> is the \<^verbatim>\<open>fmt\<close> of Go:
  every verb is an ASCII character other than \<^verbatim>\<open>*\<close> and \<^verbatim>\<open>[\<close>, the verb \<^verbatim>\<open>%\<close> comes
  right after the \<^verbatim>\<open>%\<close>, a directive holds at most six digits, and each \<open>ArgInt\<close> or
  \<open>ArgString\<close> meets a directive it is given for (\<^verbatim>\<open>%d\<close>, \<^verbatim>\<open>%v\<close>, \<^verbatim>\<open>%s\<close>, and \<^verbatim>\<open>%q\<close> on a
  string of printable ASCII). An \<open>ArgOther\<close> operand is covered under every directive.
\<close>

definition printable :: "char \<Rightarrow> bool" where
  "printable c = (32 \<le> (of_char c :: nat) \<and> (of_char c :: nat) < 127)"


definition verb_ok :: "string \<Rightarrow> char \<Rightarrow> bool" where
  "verb_ok d c =
     (\<not> digit7 c \<and> c \<noteq> CHR ''*'' \<and> c \<noteq> CHR ''['' \<and> length (filter is_digit d) \<le> 6
      \<and> (if c = CHR ''%'' then d = [] else True))"


subsection \<open>Sample configurations, processes and requests\<close>

text \<open>Every tier switched off, as the package comment asks for a release.\<close>

definition release :: config where
  "release = \<lparr>Debugging = False, Develop = False, verbose_v = False, info_i = False,
     lg_l = False\<rparr>"

text \<open>
  Three processes with an empty sink. In \<open>w_demo\<close> the clock moves forward and the stack
  text has no \<^verbatim>\<open>%\<close>; in \<open>w_path\<close> the program lives in a directory named
  \<^verbatim>\<open>50%done\<close>, which the stack text shows; in \<open>w_back\<close> the wall clock is set back by
  a second between the first reading and the next.
\<close>

definition w_demo :: world where
  "w_demo = \<lparr>sink = [],
     clock = (\<lambda>n. if n = 0 then 1500000000000000000 else 1500000000000000999),
     reads = 0,
     stack = ''goroutine 1 [running]:'' @ [CHR 0x0A] @ ''main.main()'' @ [CHR 0x0A, CHR 0x09]
       @ ''/srv/app/main.go:9 +0x1d'' @ [CHR 0x0A]\<rparr>"

definition w_path :: world where
  "w_path = \<lparr>sink = [],
     clock = (\<lambda>n. if n = 0 then 1500000000000000000 else 1500000000000000999),
     reads = 0,
     stack = ''goroutine 1 [running]:'' @ [CHR 0x0A] @ ''main.main()'' @ [CHR 0x0A, CHR 0x09]
       @ ''/srv/50%done/main.go:9 +0x1d'' @ [CHR 0x0A]\<rparr>"

definition w_back :: world where
  "w_back = \<lparr>sink = [],
     clock = (\<lambda>n. if n = 0 then 1500000000000000000 else 1499999999000000000),
     reads = 0,
     stack = ''goroutine 1 [running]:'' @ [CHR 0x0A] @ ''main.main()'' @ [CHR 0x0A, CHR 0x09]
       @ ''/srv/app/main.go:9 +0x1d'' @ [CHR 0x0A]\<rparr>"

text \<open>The request \<^verbatim>\<open>GET /x?a=1\<close>.\<close>

definition get_x :: request where
  "get_x = \<lparr>Method = ''GET'', URL = Some \<lparr>Path = ''/x'', RawQuery = ''a=1''\<rparr>\<rparr>"

section \<open>Properties\<close>

subsection \<open>Auxiliary facts\<close>

lemmas P_defs = debug_P_def verbose_P_def info_P_def lg_P_def log_Printf_def

lemmas level_defs = D_def V_def I_def W_def E_def WTF_def time_Now_UnixNano_def

lemmas eval_defs = format_int_def FormatInt_def decimal.simps digit_def extraArgs_def
  Sprintf_def missingArg_def badVerb_def quote_def godbg_Stack_def
  is_flag_def is_digit_def continues_def verb_ok_def printable_def
  KNRM_def KFNT_def KRED_def KGRN_def KYEL_def KMAG_def KRESET_def build_def









lemma exec_clock:
  "exec cfg c w = (ks, w') \<Longrightarrow>
     clock w' = clock w \<and> reads w \<le> reads w'
     \<and> (\<forall>k \<in> set ks. k = clock w (reads w)) \<and> (ks \<noteq> [] \<longrightarrow> reads w < reads w')"
  by (cases c) (auto simp: level_defs P_defs split: if_splits)

lemma run_clock:
  "run cfg cs w = (ks, w') \<Longrightarrow>
     clock w' = clock w \<and> reads w \<le> reads w'
     \<and> (\<forall>k \<in> set ks. \<exists>n. reads w \<le> n \<and> k = clock w n)"
proof (induction cs arbitrary: w ks w')
  case Nil
  then show ?case by simp
next
  case (Cons c cs)
  obtain ks1 w1 where e: "exec cfg c w = (ks1, w1)" by (cases "exec cfg c w")
  obtain ks2 w2 where r: "run cfg cs w1 = (ks2, w2)" by (cases "run cfg cs w1")
  from Cons.prems e r have ks: "ks = ks1 @ ks2" and w': "w' = w2" by simp_all
  note e1 = exec_clock [OF e]
  note r1 = Cons.IH [OF r]
  have "\<forall>k \<in> set ks2. \<exists>n. reads w \<le> n \<and> k = clock w n"
    using e1 r1 by (metis le_trans)
  moreover have "\<forall>k \<in> set ks1. \<exists>n. reads w \<le> n \<and> k = clock w n"
    using e1 by blast
  ultimately show ?case using e1 r1 ks w' by auto
qed

lemma sorted_wrt_all_same:
  "\<forall>k \<in> set ks. k = c \<Longrightarrow> sorted_wrt (\<lambda>a b. sint a \<le> sint b) ks"
  by (induction ks) auto

subsection \<open>The writer methods\<close>

text \<open>
  C10: the writer methods \<^verbatim>\<open>debug.P\<close>, \<^verbatim>\<open>verbose.P\<close>, \<^verbatim>\<open>info.P\<close> and \<^verbatim>\<open>lg.P\<close> behave
  alike: with the same flag value, preposition, tag, format and operands, started in the
  same process state, all four leave the same state behind (the same text written, or
  nothing written).
\<close>

theorem P_methods_agree:
  "verbose_P b preposition tag format args w = debug_P b preposition tag format args w
   \<and> info_P b preposition tag format args w = debug_P b preposition tag format args w
   \<and> lg_P b preposition tag format args w = debug_P b preposition tag format args w"
  by (simp add: debug_P_def verbose_P_def info_P_def lg_P_def)

subsection \<open>Timestamps and the enable gate\<close>

text \<open>
  C1: \<^verbatim>\<open>I\<close>, \<^verbatim>\<open>W\<close>, \<^verbatim>\<open>E\<close> and \<^verbatim>\<open>WTF\<close> read the clock before the enable flag is
  looked at and return that reading: for every tag, format and operands the returned
  \<^verbatim>\<open>int64\<close> is the current clock reading, the same under any two flag configurations,
  and apart from what was written to the sink the two calls leave the same process state.
\<close>

theorem timestamp_returned_whatever_the_flag:
  "fst (I cfg tag format args w) = clock w (reads w)
   \<and> fst (W cfg tag format args w) = clock w (reads w)
   \<and> fst (E cfg tag format args w) = clock w (reads w)
   \<and> fst (WTF cfg tag format args w) = clock w (reads w)
   \<and> fst (I cfg tag format args w) = fst (I cfg' tag format args w)
   \<and> fst (W cfg tag format args w) = fst (W cfg' tag format args w)
   \<and> fst (E cfg tag format args w) = fst (E cfg' tag format args w)
   \<and> fst (WTF cfg tag format args w) = fst (WTF cfg' tag format args w)
   \<and> (snd (I cfg tag format args w))\<lparr>sink := sink w\<rparr>
       = (snd (I cfg' tag format args w))\<lparr>sink := sink w\<rparr>
   \<and> (snd (W cfg tag format args w))\<lparr>sink := sink w\<rparr>
       = (snd (W cfg' tag format args w))\<lparr>sink := sink w\<rparr>
   \<and> (snd (E cfg tag format args w))\<lparr>sink := sink w\<rparr>
       = (snd (E cfg' tag format args w))\<lparr>sink := sink w\<rparr>
   \<and> (snd (WTF cfg tag format args w))\<lparr>sink := sink w\<rparr>
       = (snd (WTF cfg' tag format args w))\<lparr>sink := sink w\<rparr>"
  by (simp add: level_defs P_defs)

text \<open>
  C2: for each of \<^verbatim>\<open>D\<close>, \<^verbatim>\<open>V\<close>, \<^verbatim>\<open>I\<close>, \<^verbatim>\<open>W\<close>, \<^verbatim>\<open>E\<close> and \<^verbatim>\<open>WTF\<close>, and every tag,
  format and operands: when the flag that gates the level is false, the call leaves the
  sink as it was.
\<close>

theorem disabled_level_writes_nothing:
  "(\<not> Debugging cfg \<longrightarrow> sink (D cfg tag format args w) = sink w)
   \<and> (\<not> verbose_v cfg \<longrightarrow> sink (V cfg tag format args w) = sink w)
   \<and> (\<not> info_i cfg \<longrightarrow> sink (snd (I cfg tag format args w)) = sink w)
   \<and> (\<not> lg_l cfg \<longrightarrow> sink (snd (W cfg tag format args w)) = sink w)
   \<and> (\<not> lg_l cfg \<longrightarrow> sink (snd (E cfg tag format args w)) = sink w)
   \<and> (\<not> lg_l cfg \<longrightarrow> sink (snd (WTF cfg tag format args w)) = sink w)"
  by (simp add: level_defs P_defs)

text \<open>With every flag off, none of the six calls writes to the empty sink.\<close>

theorem disabled_level_writes_nothing_witness:
  "\<not> Debugging release \<and> \<not> verbose_v release \<and> \<not> info_i release \<and> \<not> lg_l release
   \<and> sink (D release ''net'' ''retry %d'' [ArgInt 3] w_demo) = []
   \<and> sink (V release ''net'' ''retry %d'' [ArgInt 3] w_demo) = []
   \<and> sink (snd (I release ''net'' ''retry %d'' [ArgInt 3] w_demo)) = []
   \<and> sink (snd (W release ''net'' ''retry %d'' [ArgInt 3] w_demo)) = []
   \<and> sink (snd (E release ''net'' ''retry %d'' [ArgInt 3] w_demo)) = []
   \<and> sink (snd (WTF release ''net'' ''retry %d'' [ArgInt 3] w_demo)) = []"
  using disabled_level_writes_nothing [of release "''net''" "''retry %d''" "[ArgInt 3]" w_demo]
  by (simp add: release_def w_demo_def)

subsection \<open>The ERROR path\<close>

text \<open>
  C3: \<^verbatim>\<open>E\<close> interpolates the operands, appends the stack text under
  \<^verbatim>\<open>StackTrace :\<close> and passes the composed text to \<^verbatim>\<open>lg.P\<close> with no operands; there it
  is the format of \<^verbatim>\<open>log.Printf\<close>, which expands it once more. With the program in a
  directory \<^verbatim>\<open>50%done\<close> the stack text is not emitted as it is: \<^verbatim>\<open>%d\<close> becomes
  \<^verbatim>\<open>%!d(MISSING)\<close>. The same happens to a \<^verbatim>\<open>%\<close> that an operand brought into the
  message.
\<close>

theorem error_trace_reinterpreted:
  "sink (snd (E build ''db'' ''conn lost'' [] w_path)) =
     [KRED @ ''ERROR/db : 1500000000000000000 -- conn lost'' @ [CHR 0x0A]
      @ '' StackTrace : goroutine 1 [running]:'' @ [CHR 0x0A] @ ''main.main()''
      @ [CHR 0x0A, CHR 0x09] @ ''/srv/50%!d(MISSING)one/main.go:9 +0x1d'' @ [CHR 0x0A] @ KRESET]
   \<and> sink (snd (E build ''db'' ''%s'' [ArgString ''50%done''] w_demo)) =
     [KRED @ ''ERROR/db : 1500000000000000000 -- 50%!d(MISSING)one'' @ [CHR 0x0A]
      @ '' StackTrace : goroutine 1 [running]:'' @ [CHR 0x0A] @ ''main.main()''
      @ [CHR 0x0A, CHR 0x09] @ ''/srv/app/main.go:9 +0x1d'' @ [CHR 0x0A] @ KRESET]"
  by (simp add: level_defs P_defs eval_defs w_path_def w_demo_def)

subsection \<open>Layout of the emitted line\<close>




subsection \<open>Independence of the flags\<close>

text \<open>
  \<^verbatim>\<open>W\<close>, \<^verbatim>\<open>E\<close> and \<^verbatim>\<open>WTF\<close> are gated by the one constant \<^verbatim>\<open>l\<close>. The configuration
  that differs from \<open>build\<close> only in the flag of \<^verbatim>\<open>W\<close> silences \<^verbatim>\<open>E\<close> as well.
\<close>

theorem shared_flag_counterexample:
  "Debugging (build\<lparr>lg_l := False\<rparr>) = Debugging build
   \<and> verbose_v (build\<lparr>lg_l := False\<rparr>) = verbose_v build
   \<and> info_i (build\<lparr>lg_l := False\<rparr>) = info_i build
   \<and> Develop (build\<lparr>lg_l := False\<rparr>) = Develop build
   \<and> sink (snd (W (build\<lparr>lg_l := False\<rparr>) ''net'' ''retry'' [] w_demo)) = []
   \<and> sink (snd (E (build\<lparr>lg_l := False\<rparr>) ''db'' ''conn lost'' [] w_demo)) = []
   \<and> sink (snd (E build ''db'' ''conn lost'' [] w_demo)) \<noteq> []"
  by (simp add: level_defs P_defs build_def w_demo_def)

text \<open>
  C5, as amended: the flags \<^verbatim>\<open>Debugging\<close>, \<^verbatim>\<open>v\<close>, \<^verbatim>\<open>i\<close> and \<^verbatim>\<open>l\<close> are independent
  booleans, and \<^verbatim>\<open>l\<close> gates \<^verbatim>\<open>W\<close>, \<^verbatim>\<open>E\<close> and \<^verbatim>\<open>WTF\<close> together. A level function
  behaves the same (same result, same state left behind) under any two configurations
  that agree on the flag gating it; so changing one flag changes nothing for the level
  functions gated by another flag.
\<close>

theorem level_depends_on_own_flag:
  "(Debugging cfg = Debugging cfg' \<longrightarrow> D cfg tag format args w = D cfg' tag format args w)
   \<and> (verbose_v cfg = verbose_v cfg' \<longrightarrow> V cfg tag format args w = V cfg' tag format args w)
   \<and> (info_i cfg = info_i cfg' \<longrightarrow> I cfg tag format args w = I cfg' tag format args w)
   \<and> (lg_l cfg = lg_l cfg' \<longrightarrow> W cfg tag format args w = W cfg' tag format args w)
   \<and> (lg_l cfg = lg_l cfg' \<longrightarrow> E cfg tag format args w = E cfg' tag format args w)
   \<and> (lg_l cfg = lg_l cfg' \<longrightarrow> WTF cfg tag format args w = WTF cfg' tag format args w)"
  by (simp add: level_defs)

text \<open>
  Switching off \<^verbatim>\<open>i\<close> only: \<^verbatim>\<open>I\<close> writes nothing, the other five calls are as before,
  and \<^verbatim>\<open>W\<close> still emits its line.
\<close>

theorem level_depends_on_own_flag_witness:
  "lg_l build = lg_l (build\<lparr>info_i := False\<rparr>)
   \<and> Debugging build = Debugging (build\<lparr>info_i := False\<rparr>)
   \<and> verbose_v build = verbose_v (build\<lparr>info_i := False\<rparr>)
   \<and> sink (snd (I (build\<lparr>info_i := False\<rparr>) ''net'' ''retry %d'' [ArgInt 3] w_demo)) = []
   \<and> D (build\<lparr>info_i := False\<rparr>) ''net'' ''retry %d'' [ArgInt 3] w_demo
        = D build ''net'' ''retry %d'' [ArgInt 3] w_demo
   \<and> V (build\<lparr>info_i := False\<rparr>) ''net'' ''retry %d'' [ArgInt 3] w_demo
        = V build ''net'' ''retry %d'' [ArgInt 3] w_demo
   \<and> W (build\<lparr>info_i := False\<rparr>) ''net'' ''retry %d'' [ArgInt 3] w_demo
        = W build ''net'' ''retry %d'' [ArgInt 3] w_demo
   \<and> E (build\<lparr>info_i := False\<rparr>) ''net'' ''retry %d'' [ArgInt 3] w_demo
        = E build ''net'' ''retry %d'' [ArgInt 3] w_demo
   \<and> WTF (build\<lparr>info_i := False\<rparr>) ''net'' ''retry %d'' [ArgInt 3] w_demo
        = WTF build ''net'' ''retry %d'' [ArgInt 3] w_demo
   \<and> sink (snd (W (build\<lparr>info_i := False\<rparr>) ''net'' ''retry %d'' [ArgInt 3] w_demo))
        = [KYEL @ ''WARN/net : 1500000000000000000 -- retry 3'' @ KRESET]"
  using level_depends_on_own_flag
          [of "build\<lparr>info_i := False\<rparr>" build "''net''" "''retry %d''" "[ArgInt 3]" w_demo]
  by (simp add: build_def I_def W_def time_Now_UnixNano_def P_defs w_demo_def
        format_int_def FormatInt_def decimal.simps digit_def extraArgs_def Sprintf_def
        continues_def is_flag_def is_digit_def KYEL_def KRESET_def)

subsection \<open>GetRequest\<close>

text \<open>
  C6: for the request \<^verbatim>\<open>GET /x?a=1\<close>. With \<^verbatim>\<open>Develop\<close> off the format
  \<^verbatim>\<open>"[%s] %q %v\n"\<close> has three verbs for the two operands \<^verbatim>\<open>r.Method\<close> and
  \<^verbatim>\<open>r.URL.Path\<close>, so the summary is \<^verbatim>\<open>[GET] "/x" %!v(MISSING)\<close> and a line end: the
  method, the quoted path, no query, and a missing-operand marker. With \<^verbatim>\<open>Develop\<close> on
  the request itself is returned.
\<close>

theorem request_summary_has_marker:
  "GetRequest (build\<lparr>Develop := False\<rparr>) (Some get_x) =
     Inr (IfaceString (''[GET] '' @ [CHR 0x22] @ ''/x'' @ [CHR 0x22] @ '' %!v(MISSING)''
                        @ [CHR 0x0A]))
   \<and> GetRequest build (Some get_x) = Inr (IfaceRequest (Some get_x))"
  by (simp add: GetRequest_def get_x_def eval_defs)

subsection \<open>Format mismatches\<close>

text \<open>
  C7: the format \<^verbatim>\<open>user %s gone\<close> with no operand. \<^verbatim>\<open>W\<close> emits the marker of
  \<^verbatim>\<open>fmt\<close>, \<^verbatim>\<open>%!s(MISSING)\<close>, in the place of the verb. \<^verbatim>\<open>E\<close> interpolates first and
  passes the result on as a format, so the marker is expanded once more and comes out
  as \<^verbatim>\<open>%!!(MISSING)s(MISSING)\<close>. Neither call fails.
\<close>

theorem error_path_mangles_marker:
  "sink (snd (W build ''db'' ''user %s gone'' [] w_demo)) =
     [KYEL @ ''WARN/db : 1500000000000000000 -- user %!s(MISSING) gone'' @ KRESET]
   \<and> sink (snd (E build ''db'' ''user %s gone'' [] w_demo)) =
     [KRED @ ''ERROR/db : 1500000000000000000 -- user %!!(MISSING)s(MISSING) gone''
      @ [CHR 0x0A] @ '' StackTrace : goroutine 1 [running]:'' @ [CHR 0x0A] @ ''main.main()''
      @ [CHR 0x0A, CHR 0x09] @ ''/srv/app/main.go:9 +0x1d'' @ [CHR 0x0A] @ KRESET]"
  by (simp add: level_defs P_defs eval_defs w_demo_def)

subsection \<open>Ids of successive calls\<close>

text \<open>
  The id is the wall-clock reading \<^verbatim>\<open>time.Now().UnixNano()\<close>. When the wall clock is
  set back between two calls, the later call returns the smaller id.
\<close>

theorem ids_counterexample:
  "fst (W build ''net'' ''first'' [] w_back) = 1500000000000000000
   \<and> fst (W build ''net'' ''second'' [] (snd (W build ''net'' ''first'' [] w_back)))
        = 1499999999000000000
   \<and> \<not> sint (fst (W build ''net'' ''first'' [] w_back))
        \<le> sint (fst (W build ''net'' ''second'' [] (snd (W build ''net'' ''first'' [] w_back))))"
  by (simp add: level_defs P_defs build_def w_back_def)

text \<open>
  C8, as amended: when the wall clock is never set back, the ids returned by the
  \<^verbatim>\<open>I\<close>, \<^verbatim>\<open>W\<close>, \<^verbatim>\<open>E\<close> and \<^verbatim>\<open>WTF\<close> calls of a sequence of level calls are
  non-decreasing in the order of the calls, whatever the flags and whatever calls lie
  between.
\<close>

theorem ids_follow_the_clock:
  assumes "steady w"
  shows "sorted_wrt (\<lambda>a b. sint a \<le> sint b) (fst (run cfg cs w))"
  using assms
proof (induction cs arbitrary: w)
  case Nil
  then show ?case by simp
next
  case (Cons c cs)
  obtain ks1 w1 where e: "exec cfg c w = (ks1, w1)" by (cases "exec cfg c w")
  obtain ks2 w2 where r: "run cfg cs w1 = (ks2, w2)" by (cases "run cfg cs w1")
  note e1 = exec_clock [OF e]
  note r1 = run_clock [OF r]
  have st1: "steady w1" using Cons.prems e1 by (simp add: steady_def)
  have s2: "sorted_wrt (\<lambda>a b. sint a \<le> sint b) ks2"
    using Cons.IH [OF st1] r by simp
  have s1: "sorted_wrt (\<lambda>a b. sint a \<le> sint b) ks1"
    using e1 by (blast intro: sorted_wrt_all_same)
  have cross: "\<forall>a \<in> set ks1. \<forall>b \<in> set ks2. sint a \<le> sint b"
  proof (intro ballI)
    fix a b assume a: "a \<in> set ks1" and b: "b \<in> set ks2"
    from a e1 have a': "a = clock w (reads w)" by blast
    from b r1 obtain n where n: "reads w1 \<le> n" "b = clock w1 n" by blast
    have "reads w \<le> n" using e1 n by simp
    then show "sint a \<le> sint b"
      using Cons.prems a' n e1 by (simp add: steady_def)
  qed
  show ?case using e r s1 s2 cross by (simp add: sorted_wrt_append)
qed

text \<open>Five calls in \<open>w_demo\<close>, whose clock moves forward.\<close>

theorem ids_follow_the_clock_witness:
  "steady w_demo
   \<and> fst (run build [CallI ''net'' ''up'' [], CallD ''net'' ''dbg'' [], CallW ''net'' ''retry'' [],
                      CallE ''db'' ''conn lost'' [], CallWTF ''db'' ''gone'' []] w_demo)
       = [1500000000000000000, 1500000000000000999, 1500000000000000999, 1500000000000000999]
   \<and> sorted_wrt (\<lambda>a b. sint a \<le> sint b)
        (fst (run build [CallI ''net'' ''up'' [], CallD ''net'' ''dbg'' [], CallW ''net'' ''retry'' [],
                         CallE ''db'' ''conn lost'' [], CallWTF ''db'' ''gone'' []] w_demo))"
proof -
  have st: "steady w_demo" by (simp add: steady_def w_demo_def)
  show ?thesis
    using st ids_follow_the_clock [OF st, of build
      "[CallI ''net'' ''up'' [], CallD ''net'' ''dbg'' [], CallW ''net'' ''retry'' [],
        CallE ''db'' ''conn lost'' [], CallWTF ''db'' ''gone'' []]"]
    by (simp add: level_defs P_defs build_def w_demo_def)
qed

subsection \<open>The tag inside the format\<close>



end
